theory Spec2Isabelle
  imports Main "HOL-Library.AList"
begin

section \<open>Python primitives used by \<open>leptonai/cli/tuna.py\<close>\<close>

text \<open>
  Strings are character lists. The names handled here (model folders, jobs, deployments)
  are ASCII, so one \<^typ>\<open>char\<close> is one Python character.
\<close>

text \<open>The exceptions that the modelled helpers can raise.\<close>

datatype error = ValueError | KeyError

text \<open>
  \<open>s[:k]\<close>. A negative stop counts from the end of the string, and a stop that is
  still negative after adding the length selects nothing.
\<close>

definition slice_to :: "'a list \<Rightarrow> int \<Rightarrow> 'a list" where
  "slice_to s k = (if k < 0 then take (nat (int (length s) + k)) s else take (nat k) s)"

text \<open>\<open>str(n)\<close> for a non-negative integer: decimal digits, no leading zero.\<close>

definition digit_char :: "nat \<Rightarrow> char" where
  "digit_char d = ''0123456789'' ! d"

fun str_nat :: "nat \<Rightarrow> string" where
  "str_nat n = (if n < 10 then [digit_char n] else str_nat (n div 10) @ [digit_char (n mod 10)])"

declare str_nat.simps [simp del]

text \<open>\<open>sub in s\<close> on strings: \<open>sub\<close> occurs as a contiguous substring of \<open>s\<close>.\<close>

fun str_contains :: "string \<Rightarrow> string \<Rightarrow> bool" where
  "str_contains sub [] = (sub = [])"
| "str_contains sub (c # cs) = (take (length sub) (c # cs) = sub \<or> str_contains sub cs)"

text \<open>
  \<open>s.rindex(ch)\<close> for a one-character string \<open>ch\<close>: the highest index at which it
  occurs; Python raises \<open>ValueError\<close> when there is none, here \<open>None\<close>.
\<close>

fun rindex :: "string \<Rightarrow> char \<Rightarrow> nat option" where
  "rindex [] ch = None"
| "rindex (c # cs) ch =
     (case rindex cs ch of
        Some i \<Rightarrow> Some (Suc i)
      | None \<Rightarrow> if c = ch then Some 0 else None)"

section \<open>Data model\<close>

datatype TunaModelState = Training | Ready | Running | TrainFailed | Stopped | Unknown

record TunaModel =
  folder_name :: string
  tuna_model_state :: TunaModelState
  deployments :: "string list option"
  job_name :: "string option"

text \<open>
  Modelled from the spec: the enumerations \<open>LeptonJobState\<close> and
  \<open>LeptonDeploymentState\<close> are imported from \<open>api/v1/types\<close>, which is not part of the
  sources at hand. Only the members that \<open>tuna.py\<close> names are distinguished; every other
  member is carried by its string value.
\<close>

datatype LeptonJobState = JobRunning | JobStarting | JobFailed | JobOther string

datatype LeptonDeploymentState =
  DeploymentReady | DeploymentStarting | DeploymentUpdating | DeploymentOther string

text \<open>
  \<open>LeptonDeploymentState\<close> is a string enumeration: concatenating a member with a string
  uses its value.
\<close>

fun deployment_state_value :: "LeptonDeploymentState \<Rightarrow> string" where
  "deployment_state_value DeploymentReady = ''Ready''"
| "deployment_state_value DeploymentStarting = ''Starting''"
| "deployment_state_value DeploymentUpdating = ''Updating''"
| "deployment_state_value (DeploymentOther s) = s"

text \<open>What the module reads of a job, a deployment and a storage entry.\<close>

record Job =
  job_metadata_name :: string
  job_status_state :: LeptonJobState

record Deployment =
  deployment_metadata_name :: string
  deployment_status_state :: LeptonDeploymentState

record DirInfo =
  dir_info_name :: string
  dir_info_type :: string

text \<open>
  The remote platform as one snapshot: every \<open>APIClient()\<close> of a call reads the same
  storage, job inventory and deployment inventory.
\<close>

record APIClient =
  storage_check_exists :: "string \<Rightarrow> bool"
  storage_get_dir :: "string \<Rightarrow> DirInfo list"
  job_list_all :: "Job list"
  deployment_list_all :: "Deployment list"

text \<open>
  The constants imported from \<open>leptonai/config.py\<close>, which is not part of the sources at
  hand: they are parameters of every function below.
\<close>

record Config =
  DEFAULT_TUNA_FOLDER :: string
  DEFAULT_TUNA_MODEL_PATH :: string
  TUNA_TRAIN_JOB_NAME_PREFIX :: string
  TUNA_DEPLOYMENT_NAME_PREFIX :: string

section \<open>Naming\<close>

definition generate_job_name :: "Config \<Rightarrow> string \<Rightarrow> string" where
  "generate_job_name cfg model_name = TUNA_TRAIN_JOB_NAME_PREFIX cfg @ model_name"

text \<open>
  The candidate built in one round of the loop of \<open>_generate_model_deployment_name\<close>:
  \<open>f"{base_name[:36 - (len(str(counter)) + 1)]}-{counter}"\<close>.
\<close>

definition deployment_candidate :: "string \<Rightarrow> nat \<Rightarrow> string" where
  "deployment_candidate base_name counter =
     slice_to base_name (36 - (int (length (str_nat counter)) + 1)) @ ''-'' @ str_nat counter"

text \<open>
  The loop \<open>for i in range(0, 999)\<close>: the list is the remaining range, \<open>counter\<close> is
  incremented next to it. \<open>None\<close> means that the loop ran to its end without returning.
\<close>

fun deployment_name_loop :: "string \<Rightarrow> string set \<Rightarrow> nat list \<Rightarrow> nat \<Rightarrow> string option" where
  "deployment_name_loop base_name deployment_names_set [] counter = None"
| "deployment_name_loop base_name deployment_names_set (i # rest) counter =
     (let new_name = deployment_candidate base_name counter in
      if new_name \<notin> deployment_names_set then Some new_name
      else deployment_name_loop base_name deployment_names_set rest (counter + 1))"

text \<open>
  \<open>string.ascii_letters\<close> and \<open>string.digits\<close> of the Python library: the population
  that \<open>random.choices\<close> draws the four characters of the fallback suffix from.
\<close>

definition string_ascii_letters :: string where
  "string_ascii_letters = ''abcdefghijklmnopqrstuvwxyzABCDEFGHIJKLMNOPQRSTUVWXYZ''"

definition string_digits :: string where
  "string_digits = ''0123456789''"

text \<open>
  \<open>_generate_model_deployment_name\<close>. The argument \<open>random_string\<close> is the result of
  \<open>"".join(random.choices(string.ascii_letters + string.digits, k=4))\<close>, the only
  source of randomness of the function: four characters.
\<close>

definition deployment_names_set :: "APIClient \<Rightarrow> string set" where
  "deployment_names_set client = set (map deployment_metadata_name (deployment_list_all client))"

definition generate_model_deployment_name :: "Config \<Rightarrow> APIClient \<Rightarrow> string \<Rightarrow> string \<Rightarrow> string" where
  "generate_model_deployment_name cfg client random_string model_name =
     (let base_name = TUNA_DEPLOYMENT_NAME_PREFIX cfg @ model_name
      in case deployment_name_loop base_name (deployment_names_set client) [0..<999] 0 of
           Some new_name \<Rightarrow> new_name
         | None \<Rightarrow> slice_to (TUNA_DEPLOYMENT_NAME_PREFIX cfg @ model_name) 32 @ random_string)"

section \<open>Aggregation\<close>

text \<open>
  The dictionary of \<open>_build_shortened_model_name_deployment_map\<close> maps a shortened model
  name to a list whose first element is a \<open>TunaModelState\<close> and whose other elements are
  strings; here a pair of the first element and the rest. Dictionaries are association
  lists in insertion order.
\<close>

type_synonym deployment_info = "TunaModelState \<times> string list"

fun build_loop ::
  "string \<Rightarrow> Deployment list \<Rightarrow> (string \<times> deployment_info) list
     \<Rightarrow> error + (string \<times> deployment_info) list" where
  "build_loop prefix [] m = Inr m"
| "build_loop prefix (deployment # rest) m =
     (let deployment_name = deployment_metadata_name deployment in
      if \<not> str_contains prefix deployment_name then build_loop prefix rest m
      else
        case rindex deployment_name CHR ''-'' of
          None \<Rightarrow> Inl ValueError
        | Some r \<Rightarrow>
           (let shortened_model_name = drop (length prefix) (take r deployment_name);
                entry =
                  deployment_name @ '' ('' @
                    deployment_state_value (deployment_status_state deployment) @ '')'';
                m1 =
                  (if deployment_status_state deployment
                        \<in> set [DeploymentReady, DeploymentStarting, DeploymentUpdating]
                   then
                     (case map_of m shortened_model_name of
                        None \<Rightarrow> AList.update shortened_model_name (Running, []) m
                      | Some (s, entries) \<Rightarrow>
                          AList.update shortened_model_name (Running, entries) m)
                   else
                     (case map_of m shortened_model_name of
                        None \<Rightarrow> AList.update shortened_model_name (Stopped, []) m
                      | Some info \<Rightarrow> m))
            in
              case map_of m1 shortened_model_name of
                None \<Rightarrow> Inl KeyError
              | Some (s, entries) \<Rightarrow>
                  build_loop prefix rest
                    (AList.update shortened_model_name (s, List.append entries [entry]) m1)))"

definition build_shortened_model_name_deployment_map ::
  "Config \<Rightarrow> APIClient \<Rightarrow> error + (string \<times> deployment_info) list" where
  "build_shortened_model_name_deployment_map cfg client =
     build_loop (TUNA_DEPLOYMENT_NAME_PREFIX cfg) (deployment_list_all client) []"

definition get_model_names :: "Config \<Rightarrow> APIClient \<Rightarrow> string list" where
  "get_model_names cfg client =
     map dir_info_name
       (filter (\<lambda>dir_info. dir_info_type dir_info = ''dir'')
          (storage_get_dir client (DEFAULT_TUNA_MODEL_PATH cfg)))"

definition model_train_completed :: "Config \<Rightarrow> APIClient \<Rightarrow> string \<Rightarrow> bool" where
  "model_train_completed cfg client model_name =
     (length (storage_get_dir client (DEFAULT_TUNA_MODEL_PATH cfg @ ''/'' @ model_name)) > 1)"

text \<open>The loop over the jobs in \<open>_get_models_map\<close>: the running and the failed names.\<close>

fun job_sets :: "Job list \<Rightarrow> string set \<times> string set \<Rightarrow> string set \<times> string set" where
  "job_sets [] sets = sets"
| "job_sets (job # rest) (running_job_set, failed_job_set) =
     (let job_status = job_status_state job in
      if job_status = JobRunning \<or> job_status = JobStarting
      then job_sets rest (insert (job_metadata_name job) running_job_set, failed_job_set)
      else if job_status = JobFailed
      then job_sets rest (running_job_set, insert (job_metadata_name job) failed_job_set)
      else job_sets rest (running_job_set, failed_job_set))"

text \<open>The body of the loop over the model names: the record stored for one model.\<close>

definition model_record ::
  "Config \<Rightarrow> APIClient \<Rightarrow> string set \<Rightarrow> string set \<Rightarrow> (string \<times> deployment_info) list
     \<Rightarrow> string \<Rightarrow> TunaModel" where
  "model_record cfg client running_job_set failed_job_set model_deployment_map model_name =
     (let job_name = generate_job_name cfg model_name in
      if \<not> model_train_completed cfg client model_name \<and> job_name \<notin> running_job_set then
        \<lparr>folder_name = model_name, tuna_model_state = TrainFailed, deployments = None,
         job_name = (if job_name \<in> failed_job_set then Some job_name else None)\<rparr>
      else if job_name \<notin> running_job_set then
        (let cur_shorten_model_name =
               slice_to model_name (32 - int (length (TUNA_DEPLOYMENT_NAME_PREFIX cfg)))
         in case map_of model_deployment_map cur_shorten_model_name of
              Some cur_deployment_info \<Rightarrow>
                \<lparr>folder_name = model_name, tuna_model_state = fst cur_deployment_info,
                 deployments = Some (snd cur_deployment_info), job_name = None\<rparr>
            | None \<Rightarrow>
                \<lparr>folder_name = model_name, tuna_model_state = Ready, deployments = None,
                 job_name = None\<rparr>)
      else
        \<lparr>folder_name = model_name, tuna_model_state = Training, deployments = None,
         job_name = Some job_name\<rparr>)"

fun models_loop ::
  "(string \<Rightarrow> TunaModel) \<Rightarrow> string list \<Rightarrow> (string \<times> TunaModel) list
     \<Rightarrow> (string \<times> TunaModel) list" where
  "models_loop body [] model_names_map = model_names_map"
| "models_loop body (model_name # rest) model_names_map =
     models_loop body rest (AList.update model_name (body model_name) model_names_map)"

definition get_models_map :: "Config \<Rightarrow> APIClient \<Rightarrow> error + (string \<times> TunaModel) list" where
  "get_models_map cfg client =
     (if \<not> storage_check_exists client (DEFAULT_TUNA_FOLDER cfg) then Inr []
      else if \<not> storage_check_exists client (DEFAULT_TUNA_MODEL_PATH cfg) then Inr []
      else
        (let (running_job_set, failed_job_set) = job_sets (job_list_all client) ({}, {}) in
         case build_shortened_model_name_deployment_map cfg client of
           Inl e \<Rightarrow> Inl e
         | Inr model_deployment_map \<Rightarrow>
             Inr (models_loop
                    (model_record cfg client running_job_set failed_job_set model_deployment_map)
                    (get_model_names cfg client) [])))"

section \<open>Notions used to state the properties\<close>

text \<open>The two job-name sets that \<open>_get_models_map\<close> computes from the job inventory.\<close>

definition running_job_set :: "APIClient \<Rightarrow> string set" where
  "running_job_set client = fst (job_sets (job_list_all client) ({}, {}))"

definition failed_job_set :: "APIClient \<Rightarrow> string set" where
  "failed_job_set client = snd (job_sets (job_list_all client) ({}, {}))"

text \<open>
  The key under which the loop of \<open>_build_shortened_model_name_deployment_map\<close> files a
  deployment name: none when the name does not contain the prefix (the deployment is
  skipped) or has no \<open>-\<close> (\<open>rindex\<close> raises).
\<close>

definition shortened_key :: "string \<Rightarrow> string \<Rightarrow> string option" where
  "shortened_key prefix deployment_name =
     (if str_contains prefix deployment_name then
        (case rindex deployment_name CHR ''-'' of
           None \<Rightarrow> None
         | Some r \<Rightarrow> Some (drop (length prefix) (take r deployment_name)))
      else None)"

text \<open>The deployments of the inventory filed under a key, in inventory order.\<close>

definition matching_deployments :: "Config \<Rightarrow> APIClient \<Rightarrow> string \<Rightarrow> Deployment list" where
  "matching_deployments cfg client k =
     filter (\<lambda>d. shortened_key (TUNA_DEPLOYMENT_NAME_PREFIX cfg) (deployment_metadata_name d) = Some k)
       (deployment_list_all client)"

definition deployment_active :: "Deployment \<Rightarrow> bool" where
  "deployment_active d =
     (deployment_status_state d \<in> {DeploymentReady, DeploymentStarting, DeploymentUpdating})"

definition deployment_entry :: "Deployment \<Rightarrow> string" where
  "deployment_entry d =
     deployment_metadata_name d @ '' ('' @ deployment_state_value (deployment_status_state d) @ '')''"

text \<open>
  The index can be built: every deployment name that contains the prefix has a \<open>-\<close>,
  so that \<open>rindex\<close> never raises. This holds for every inventory when the prefix itself
  contains a \<open>-\<close>.
\<close>

definition index_builds :: "Config \<Rightarrow> APIClient \<Rightarrow> bool" where
  "index_builds cfg client =
     (\<forall>d \<in> set (deployment_list_all client).
        str_contains (TUNA_DEPLOYMENT_NAME_PREFIX cfg) (deployment_metadata_name d)
          \<longrightarrow> CHR ''-'' \<in> set (deployment_metadata_name d))"

text \<open>
  What the index holds for a key after a run of the loop: \<open>old\<close> is what it held before
  the run, \<open>ds\<close> are the deployments of the run filed under the key.
\<close>

definition merge_info :: "deployment_info option \<Rightarrow> Deployment list \<Rightarrow> deployment_info option" where
  "merge_info old ds =
     (if ds = [] then old
      else Some (if list_ex deployment_active ds then Running
                 else (case old of None \<Rightarrow> Stopped | Some info \<Rightarrow> fst info),
                 (case old of None \<Rightarrow> [] | Some info \<Rightarrow> snd info) @ map deployment_entry ds))"

section \<open>Sample inventories\<close>

text \<open>
  A configuration with the prefixes that the scenarios of the specification show
  (job \<open>train-job-alpha\<close>, deployment \<open>tuna-alpha-0\<close>).
\<close>

definition tuna_cfg :: Config where
  "tuna_cfg =
     \<lparr>DEFAULT_TUNA_FOLDER = ''/lepton-tuna'',
      DEFAULT_TUNA_MODEL_PATH = ''/lepton-tuna/model'',
      TUNA_TRAIN_JOB_NAME_PREFIX = ''train-job-'',
      TUNA_DEPLOYMENT_NAME_PREFIX = ''tuna-''\<rparr>"

text \<open>A snapshot of the platform from a directory tree, the jobs and the deployments.\<close>

definition snapshot :: "(string \<times> DirInfo list) list \<Rightarrow> Job list \<Rightarrow> Deployment list \<Rightarrow> APIClient" where
  "snapshot tree jobs deps =
     \<lparr>storage_check_exists = (\<lambda>path. map_of tree path \<noteq> None),
      storage_get_dir = (\<lambda>path. case map_of tree path of None \<Rightarrow> [] | Some entries \<Rightarrow> entries),
      job_list_all = jobs,
      deployment_list_all = deps\<rparr>"

definition dir_entry :: "string \<Rightarrow> DirInfo" where
  "dir_entry n = \<lparr>dir_info_name = n, dir_info_type = ''dir''\<rparr>"

definition file_entry :: "string \<Rightarrow> DirInfo" where
  "file_entry n = \<lparr>dir_info_name = n, dir_info_type = ''file''\<rparr>"

definition ready_deployment :: "string \<Rightarrow> Deployment" where
  "ready_deployment n = \<lparr>deployment_metadata_name = n, deployment_status_state = DeploymentReady\<rparr>"

text \<open>
  The inventory of the exhaustion scenario for the model \<open>delta\<close>: every counter
  candidate is deployed, and so is the name \<open>tuna-deltaAAAA\<close>.
\<close>

definition exhausted_names :: "string list" where
  "exhausted_names = ''tuna-deltaAAAA'' # map (deployment_candidate ''tuna-delta'') [0..<999]"

definition exhausted_client :: APIClient where
  "exhausted_client = snapshot [] [] (map ready_deployment exhausted_names)"

text \<open>
  The exhaustion scenario of the specification for the model \<open>delta\<close>: the 999 deployment
  names are the counter candidates, and nothing else is deployed.
\<close>

definition candidates_only_client :: APIClient where
  "candidates_only_client =
     snapshot [] [] (map ready_deployment (map (deployment_candidate ''tuna-delta'') [0..<999]))"

text \<open>
  An inventory with one model in every branch of the aggregation: \<open>alpha\<close> is trained
  and deployed twice, \<open>beta\<close> is trained, the job of \<open>gamma\<close> failed, the folder of
  \<open>delta\<close> is empty and has no job, \<open>epsilon\<close> is being trained.
\<close>

definition demo_client :: APIClient where
  "demo_client =
     snapshot
       [(''/lepton-tuna'', [dir_entry ''dataset'', dir_entry ''model'']),
        (''/lepton-tuna/model'',
           [dir_entry ''alpha'', dir_entry ''beta'', dir_entry ''gamma'', dir_entry ''delta'',
            dir_entry ''epsilon'', file_entry ''README'']),
        (''/lepton-tuna/model/alpha'', [file_entry ''alpha_info.json'', dir_entry ''checkpoint'']),
        (''/lepton-tuna/model/beta'', [file_entry ''beta_info.json'', file_entry ''model.bin'']),
        (''/lepton-tuna/model/gamma'', [file_entry ''gamma_info.json'']),
        (''/lepton-tuna/model/delta'', []),
        (''/lepton-tuna/model/epsilon'', [file_entry ''epsilon_info.json''])]
       [\<lparr>job_metadata_name = ''train-job-gamma'', job_status_state = JobFailed\<rparr>,
        \<lparr>job_metadata_name = ''train-job-epsilon'', job_status_state = JobRunning\<rparr>,
        \<lparr>job_metadata_name = ''train-job-beta'', job_status_state = JobOther ''Completed''\<rparr>]
       [\<lparr>deployment_metadata_name = ''tuna-alpha-0'',
         deployment_status_state = DeploymentOther ''Stopped''\<rparr>,
        ready_deployment ''tuna-alpha-1'',
        ready_deployment ''web'',
        \<lparr>deployment_metadata_name = ''tuna-zeta-0'',
         deployment_status_state = DeploymentOther ''Not Ready''\<rparr>]"

text \<open>
  A trained model whose name has 28 characters (33 with the prefix \<open>tuna-\<close>, within
  the limit of 36), next to a given deployment inventory.
\<close>

definition long_name :: string where
  "long_name = ''aaaaaaaaaaaaaaaaaaaaaaaaaaaa''"

definition long_name_client :: "Deployment list \<Rightarrow> APIClient" where
  "long_name_client deps =
     snapshot
       [(''/lepton-tuna'', [dir_entry ''model'']),
        (''/lepton-tuna/model'', [dir_entry long_name]),
        (''/lepton-tuna/model/'' @ long_name,
           [file_entry (long_name @ ''_info.json''), file_entry ''adapter.bin''])]
       [] deps"

section \<open>Decimal strings and counter candidates\<close>



lemma digit_not_dash: "d < 10 \<Longrightarrow> digit_char d \<noteq> CHR ''-''"
  unfolding digit_char_def
  by (auto simp: less_Suc_eq numeral_eq_Suc)

lemma str_nat_no_dash: "CHR ''-'' \<notin> set (str_nat n)"
proof (induction n rule: str_nat.induct)
  case (1 n)
  show ?case
  proof (cases "n < 10")
    case True
    then show ?thesis using digit_not_dash [of n] by (subst str_nat.simps) auto
  next
    case False
    with 1 show ?thesis using digit_not_dash [of "n mod 10"] by (subst str_nat.simps) auto
  qed
qed

lemma str_nat_digit: "n < 10 \<Longrightarrow> str_nat n = [digit_char n]"
  by (subst str_nat.simps) simp

lemma str_nat_step: "10 \<le> n \<Longrightarrow> str_nat n = str_nat (n div 10) @ [digit_char (n mod 10)]"
  by (subst str_nat.simps) simp

lemma length_str_nat_1: "n < 10 \<Longrightarrow> length (str_nat n) = 1"
  by (simp add: str_nat_digit)

lemma length_str_nat_2: "10 \<le> n \<Longrightarrow> n < 100 \<Longrightarrow> length (str_nat n) = 2"
  by (simp add: str_nat_step length_str_nat_1)

lemma length_str_nat_3:
  assumes "100 \<le> n" and "n < 1000"
  shows "length (str_nat n) = 3"
proof -
  from assms have "10 \<le> n div 10" and "n div 10 < 100" by auto
  then have "length (str_nat (n div 10)) = 2" by (rule length_str_nat_2)
  moreover from assms have "str_nat n = str_nat (n div 10) @ [digit_char (n mod 10)]"
    by (intro str_nat_step) simp
  ultimately show ?thesis by simp
qed

lemma length_str_nat_cases:
  "n < 1000 \<Longrightarrow> length (str_nat n) = (if n < 10 then 1 else if n < 100 then 2 else 3)"
  using length_str_nat_1 [of n] length_str_nat_2 [of n] length_str_nat_3 [of n] by auto


lemma candidate_eq:
  "counter < 1000 \<Longrightarrow>
   deployment_candidate base counter =
     take (if counter < 10 then 34 else if counter < 100 then 33 else 32) base
       @ ''-'' @ str_nat counter"
  by (simp add: deployment_candidate_def slice_to_def length_str_nat_cases)

lemma length_candidate: "counter < 1000 \<Longrightarrow> length (deployment_candidate base counter) \<le> 36"
  by (simp add: candidate_eq length_str_nat_cases)

lemma loop_Some:
  "deployment_name_loop base names rng counter = Some n \<Longrightarrow>
   \<exists>j < length rng. n = deployment_candidate base (counter + j) \<and> n \<notin> names"
proof (induction rng arbitrary: counter)
  case Nil
  then show ?case by simp
next
  case (Cons i rng)
  show ?case
  proof (cases "deployment_candidate base counter \<in> names")
    case False
    with Cons.prems have "n = deployment_candidate base counter" by (simp add: Let_def)
    with False show ?thesis by auto
  next
    case True
    with Cons.prems have "deployment_name_loop base names rng (counter + 1) = Some n"
      by (simp add: Let_def)
    from Cons.IH [OF this] obtain j where "j < length rng"
      "n = deployment_candidate base (counter + 1 + j)" "n \<notin> names" by blast
    then have "Suc j < length (i # rng) \<and> n = deployment_candidate base (counter + Suc j) \<and> n \<notin> names"
      by simp
    then show ?thesis by blast
  qed
qed

lemma loop_None:
  "(deployment_name_loop base names rng counter = None) =
   (\<forall>j < length rng. deployment_candidate base (counter + j) \<in> names)"
proof (induction rng arbitrary: counter)
  case Nil
  then show ?case by simp
next
  case (Cons i rng)
  have "(\<forall>j < length (i # rng). deployment_candidate base (counter + j) \<in> names) =
        (deployment_candidate base counter \<in> names \<and>
         (\<forall>j < length rng. deployment_candidate base (counter + 1 + j) \<in> names))"
    by (auto simp: less_Suc_eq_0_disj)
  with Cons.IH [of "counter + 1"] show ?case by (simp add: Let_def)
qed

lemma generate_fallback:
  assumes "\<forall>c < 999. deployment_candidate (TUNA_DEPLOYMENT_NAME_PREFIX cfg @ model_name) c
             \<in> deployment_names_set client"
  shows "generate_model_deployment_name cfg client random_string model_name =
           slice_to (TUNA_DEPLOYMENT_NAME_PREFIX cfg @ model_name) 32 @ random_string"
proof -
  have "deployment_name_loop (TUNA_DEPLOYMENT_NAME_PREFIX cfg @ model_name)
          (deployment_names_set client) [0..<999] 0 = None"
    using assms by (simp add: loop_None)
  then show ?thesis by (simp add: generate_model_deployment_name_def)
qed

lemma generate_candidate:
  assumes "c < 999"
      and "deployment_candidate (TUNA_DEPLOYMENT_NAME_PREFIX cfg @ model_name) c
             \<notin> deployment_names_set client"
  shows "\<exists>j < 999. generate_model_deployment_name cfg client random_string model_name =
           deployment_candidate (TUNA_DEPLOYMENT_NAME_PREFIX cfg @ model_name) j \<and>
         deployment_name_loop (TUNA_DEPLOYMENT_NAME_PREFIX cfg @ model_name)
           (deployment_names_set client) [0..<999] 0 =
           Some (deployment_candidate (TUNA_DEPLOYMENT_NAME_PREFIX cfg @ model_name) j)"
proof -
  let ?base = "TUNA_DEPLOYMENT_NAME_PREFIX cfg @ model_name"
  have "deployment_name_loop ?base (deployment_names_set client) [0..<999] 0 \<noteq> None"
    using assms by (auto simp: loop_None)
  then obtain n where n: "deployment_name_loop ?base (deployment_names_set client) [0..<999] 0 = Some n"
    by blast
  from loop_Some [OF n] obtain j where "j < 999" "n = deployment_candidate ?base j" by auto
  with n show ?thesis by (auto simp: generate_model_deployment_name_def)
qed

section \<open>Substrings and the last dash\<close>

lemma rindex_None: "(rindex s ch = None) = (ch \<notin> set s)"
  by (induction s) (auto split: option.splits)

lemma str_contains_set: "str_contains sub s \<Longrightarrow> set sub \<subseteq> set s"
proof (induction s)
  case Nil
  then show ?case by simp
next
  case (Cons c cs)
  from Cons.prems have "take (length sub) (c # cs) = sub \<or> str_contains sub cs" by simp
  then show ?case
  proof
    assume "take (length sub) (c # cs) = sub"
    then have "set sub = set (take (length sub) (c # cs))" by simp
    also have "\<dots> \<subseteq> set (c # cs)" by (rule set_take_subset)
    finally show ?thesis .
  next
    assume "str_contains sub cs"
    with Cons.IH show ?thesis by auto
  qed
qed

lemma dash_prefix_index_builds:
  "CHR ''-'' \<in> set (TUNA_DEPLOYMENT_NAME_PREFIX cfg) \<Longrightarrow> index_builds cfg client"
  unfolding index_builds_def using str_contains_set by blast

section \<open>The job sets\<close>

lemma fst_job_sets:
  "fst (job_sets jobs (R, F)) =
     R \<union> {job_metadata_name j | j. j \<in> set jobs \<and>
              (job_status_state j = JobRunning \<or> job_status_state j = JobStarting)}"
proof (induction jobs arbitrary: R F)
  case Nil
  then show ?case by simp
next
  case (Cons job rest)
  show ?case by (auto simp: Cons.IH Let_def)
qed

lemma snd_job_sets:
  "snd (job_sets jobs (R, F)) =
     F \<union> {job_metadata_name j | j. j \<in> set jobs \<and> job_status_state j = JobFailed}"
proof (induction jobs arbitrary: R F)
  case Nil
  then show ?case by simp
next
  case (Cons job rest)
  show ?case by (auto simp: Cons.IH Let_def)
qed

lemma running_job_set_eq:
  "running_job_set client =
     {job_metadata_name j | j. j \<in> set (job_list_all client) \<and>
        (job_status_state j = JobRunning \<or> job_status_state j = JobStarting)}"
  by (simp add: running_job_set_def fst_job_sets)

lemma failed_job_set_eq:
  "failed_job_set client =
     {job_metadata_name j | j. j \<in> set (job_list_all client) \<and> job_status_state j = JobFailed}"
  by (simp add: failed_job_set_def snd_job_sets)

section \<open>The loop over the model names\<close>

lemma map_of_models_loop:
  "map_of (models_loop body names acc) k =
     (if k \<in> set names then Some (body k) else map_of acc k)"
  by (induction names arbitrary: acc) (auto simp: update_conv')

lemma set_update_subset: "set (AList.update k v al) \<subseteq> insert (k, v) (set al)"
  by (induction al) auto

lemma set_models_loop:
  "(k, r) \<in> set (models_loop body names acc) \<Longrightarrow> (k, r) \<in> set acc \<or> r = body k"
proof (induction names arbitrary: acc)
  case Nil
  then show ?case by simp
next
  case (Cons n names)
  from Cons.prems have "(k, r) \<in> set (models_loop body names (AList.update n (body n) acc))"
    by simp
  from Cons.IH [OF this] show ?case
  proof
    assume "(k, r) \<in> set (AList.update n (body n) acc)"
    with set_update_subset [of n "body n" acc] show ?thesis by auto
  next
    assume "r = body k"
    then show ?thesis by simp
  qed
qed

section \<open>The deployment index\<close>

lemma build_loop_Cons:
  assumes "str_contains prefix (deployment_metadata_name d)"
      and "rindex (deployment_metadata_name d) CHR ''-'' = Some r"
      and "key = drop (length prefix) (take r (deployment_metadata_name d))"
  shows "build_loop prefix (d # ds) m =
         build_loop prefix ds
           (AList.update key
              (if deployment_active d then Running
               else (case map_of m key of None \<Rightarrow> Stopped | Some info \<Rightarrow> fst info),
               (case map_of m key of None \<Rightarrow> [] | Some info \<Rightarrow> snd info)
                 @ [deployment_entry d]) m)"
proof (cases "map_of m key")
  case None
  show ?thesis
  proof (cases "deployment_active d")
    case True
    with None assms show ?thesis
      by (simp add: Let_def deployment_active_def deployment_entry_def update_conv')
  next
    case False
    with None assms show ?thesis
      by (simp add: Let_def deployment_active_def deployment_entry_def update_conv')
  qed
next
  case (Some info)
  obtain s es where info: "info = (s, es)" by (cases info)
  show ?thesis
  proof (cases "deployment_active d")
    case True
    with Some info assms show ?thesis
      by (simp add: Let_def deployment_active_def deployment_entry_def update_conv')
  next
    case False
    with False Some info assms show ?thesis
      by (simp add: Let_def deployment_active_def deployment_entry_def)
  qed
qed

lemma build_loop_lookup:
  "build_loop prefix ds m = Inr idx \<Longrightarrow>
   map_of idx k =
     merge_info (map_of m k)
       (filter (\<lambda>d. shortened_key prefix (deployment_metadata_name d) = Some k) ds)"
proof (induction ds arbitrary: m)
  case Nil
  then show ?case by (simp add: merge_info_def)
next
  case (Cons d ds)
  let ?name = "deployment_metadata_name d"
  show ?case
  proof (cases "str_contains prefix ?name")
    case False
    with Cons.prems have "build_loop prefix ds m = Inr idx" by simp
    from Cons.IH [OF this] False show ?thesis by (simp add: shortened_key_def)
  next
    case True
    show ?thesis
    proof (cases "rindex ?name CHR ''-''")
      case None
      with True Cons.prems show ?thesis by simp
    next
      case (Some r)
      let ?key = "drop (length prefix) (take r ?name)"
      let ?s = "if deployment_active d then Running
                else (case map_of m ?key of None \<Rightarrow> Stopped | Some info \<Rightarrow> fst info)"
      let ?es = "case map_of m ?key of None \<Rightarrow> [] | Some info \<Rightarrow> snd info"
      let ?m2 = "AList.update ?key (?s, ?es @ [deployment_entry d]) m"
      have key: "shortened_key prefix ?name = Some ?key"
        using True Some by (simp add: shortened_key_def)
      have step: "build_loop prefix (d # ds) m = build_loop prefix ds ?m2"
        using True Some by (rule build_loop_Cons) simp
      with Cons.prems have "build_loop prefix ds ?m2 = Inr idx" by simp
      from Cons.IH [OF this] have IH:
        "map_of idx k = merge_info (map_of ?m2 k)
           (filter (\<lambda>d. shortened_key prefix (deployment_metadata_name d) = Some k) ds)" .
      show ?thesis
      proof (cases "k = ?key")
        case False
        with IH key show ?thesis by (simp add: update_conv')
      next
        case True
        with IH key show ?thesis
          by (auto simp: update_conv' merge_info_def split: option.splits)
      qed
    qed
  qed
qed

lemma build_loop_returns:
  "\<forall>d \<in> set ds. str_contains prefix (deployment_metadata_name d)
      \<longrightarrow> CHR ''-'' \<in> set (deployment_metadata_name d) \<Longrightarrow>
   \<exists>idx. build_loop prefix ds m = Inr idx"
proof (induction ds arbitrary: m)
  case Nil
  then show ?case by simp
next
  case (Cons d ds)
  then have rest: "\<And>m'. \<exists>idx. build_loop prefix ds m' = Inr idx" by simp
  show ?case
  proof (cases "str_contains prefix (deployment_metadata_name d)")
    case False
    with rest show ?thesis by simp
  next
    case True
    with Cons.prems have "rindex (deployment_metadata_name d) CHR ''-'' \<noteq> None"
      by (simp add: rindex_None)
    then obtain r where "rindex (deployment_metadata_name d) CHR ''-'' = Some r" by blast
    from build_loop_Cons [OF True this refl] rest show ?thesis by simp
  qed
qed

section \<open>The aggregation as a whole\<close>

lemma index_builds_returns:
  "index_builds cfg client \<Longrightarrow>
   \<exists>idx. build_shortened_model_name_deployment_map cfg client = Inr idx"
  unfolding index_builds_def build_shortened_model_name_deployment_map_def
  by (rule build_loop_returns)

lemma index_lookup:
  assumes "build_shortened_model_name_deployment_map cfg client = Inr idx"
  shows "map_of idx k = merge_info None (matching_deployments cfg client k)"
  using build_loop_lookup [of "TUNA_DEPLOYMENT_NAME_PREFIX cfg" "deployment_list_all client" "[]" idx k]
    assms
  by (simp add: build_shortened_model_name_deployment_map_def matching_deployments_def)

lemma index_state:
  assumes "build_shortened_model_name_deployment_map cfg client = Inr idx"
      and "map_of idx k = Some info"
  shows "fst info = Running \<or> fst info = Stopped"
  using index_lookup [OF assms(1), of k] assms(2)
  by (auto simp: merge_info_def split: if_splits)

lemma get_models_map_eq:
  assumes "storage_check_exists client (DEFAULT_TUNA_FOLDER cfg)"
      and "storage_check_exists client (DEFAULT_TUNA_MODEL_PATH cfg)"
      and "build_shortened_model_name_deployment_map cfg client = Inr idx"
  shows "get_models_map cfg client =
           Inr (models_loop
                  (model_record cfg client (running_job_set client) (failed_job_set client) idx)
                  (get_model_names cfg client) [])"
  using assms
  by (simp add: get_models_map_def running_job_set_def failed_job_set_def split_beta)

lemma get_models_map_lookup:
  assumes "storage_check_exists client (DEFAULT_TUNA_FOLDER cfg)"
      and "storage_check_exists client (DEFAULT_TUNA_MODEL_PATH cfg)"
      and "index_builds cfg client"
      and "model_name \<in> set (get_model_names cfg client)"
  shows "\<exists>idx m. build_shortened_model_name_deployment_map cfg client = Inr idx \<and>
           get_models_map cfg client = Inr m \<and>
           map_of m model_name =
             Some (model_record cfg client (running_job_set client) (failed_job_set client) idx
                     model_name)"
proof -
  from index_builds_returns [OF assms(3)] obtain idx where
    idx: "build_shortened_model_name_deployment_map cfg client = Inr idx" by blast
  from get_models_map_eq [OF assms(1,2) idx] assms(4) idx show ?thesis
    by (simp add: map_of_models_loop)
qed

section \<open>The sample inventory, evaluated\<close>

lemma demo_exists:
  "storage_check_exists demo_client (DEFAULT_TUNA_FOLDER tuna_cfg)"
  "storage_check_exists demo_client (DEFAULT_TUNA_MODEL_PATH tuna_cfg)"
  by (simp_all add: demo_client_def snapshot_def tuna_cfg_def)

lemma demo_index_builds: "index_builds tuna_cfg demo_client"
  by (simp add: index_builds_def demo_client_def snapshot_def tuna_cfg_def ready_deployment_def)

lemma demo_model_names:
  "get_model_names tuna_cfg demo_client = [''alpha'', ''beta'', ''gamma'', ''delta'', ''epsilon'']"
  by (simp add: get_model_names_def demo_client_def snapshot_def tuna_cfg_def dir_entry_def
        file_entry_def)

lemma demo_running: "running_job_set demo_client = {''train-job-epsilon''}"
  by (simp add: running_job_set_def demo_client_def snapshot_def Let_def)

lemma demo_failed: "failed_job_set demo_client = {''train-job-gamma''}"
  by (simp add: failed_job_set_def demo_client_def snapshot_def Let_def)

lemma demo_index:
  "build_shortened_model_name_deployment_map tuna_cfg demo_client =
     Inr [(''alpha'', Running, [''tuna-alpha-0 (Stopped)'', ''tuna-alpha-1 (Ready)'']),
          (''zeta'', Stopped, [''tuna-zeta-0 (Not Ready)''])]"
  by (simp add: build_shortened_model_name_deployment_map_def demo_client_def snapshot_def
        tuna_cfg_def ready_deployment_def Let_def)

lemma demo_models_map:
  "get_models_map tuna_cfg demo_client =
     Inr [(''alpha'',
             \<lparr>folder_name = ''alpha'', tuna_model_state = Running,
              deployments = Some [''tuna-alpha-0 (Stopped)'', ''tuna-alpha-1 (Ready)''],
              job_name = None\<rparr>),
          (''beta'',
             \<lparr>folder_name = ''beta'', tuna_model_state = Ready, deployments = None,
              job_name = None\<rparr>),
          (''gamma'',
             \<lparr>folder_name = ''gamma'', tuna_model_state = TrainFailed, deployments = None,
              job_name = Some ''train-job-gamma''\<rparr>),
          (''delta'',
             \<lparr>folder_name = ''delta'', tuna_model_state = TrainFailed, deployments = None,
              job_name = None\<rparr>),
          (''epsilon'',
             \<lparr>folder_name = ''epsilon'', tuna_model_state = Training, deployments = None,
              job_name = Some ''train-job-epsilon''\<rparr>)]"
proof -
  have "get_models_map tuna_cfg demo_client =
          Inr (models_loop
                 (model_record tuna_cfg demo_client {''train-job-epsilon''} {''train-job-gamma''}
                    [(''alpha'', Running, [''tuna-alpha-0 (Stopped)'', ''tuna-alpha-1 (Ready)'']),
                     (''zeta'', Stopped, [''tuna-zeta-0 (Not Ready)''])])
                 [''alpha'', ''beta'', ''gamma'', ''delta'', ''epsilon''] [])"
    using get_models_map_eq [OF demo_exists demo_index]
    by (simp add: demo_running demo_failed demo_model_names)
  also have "\<dots> = Inr [(''alpha'',
             \<lparr>folder_name = ''alpha'', tuna_model_state = Running,
              deployments = Some [''tuna-alpha-0 (Stopped)'', ''tuna-alpha-1 (Ready)''],
              job_name = None\<rparr>),
          (''beta'',
             \<lparr>folder_name = ''beta'', tuna_model_state = Ready, deployments = None,
              job_name = None\<rparr>),
          (''gamma'',
             \<lparr>folder_name = ''gamma'', tuna_model_state = TrainFailed, deployments = None,
              job_name = Some ''train-job-gamma''\<rparr>),
          (''delta'',
             \<lparr>folder_name = ''delta'', tuna_model_state = TrainFailed, deployments = None,
              job_name = None\<rparr>),
          (''epsilon'',
             \<lparr>folder_name = ''epsilon'', tuna_model_state = Training, deployments = None,
              job_name = Some ''train-job-epsilon''\<rparr>)]"
    by (simp add: model_record_def model_train_completed_def generate_job_name_def
          demo_client_def snapshot_def tuna_cfg_def slice_to_def Let_def)
  finally show ?thesis .
qed

section \<open>Properties of the naming\<close>

lemma exhausted_names_set: "deployment_names_set exhausted_client = set exhausted_names"
  by (simp add: deployment_names_set_def exhausted_client_def snapshot_def ready_deployment_def
        o_def)

lemma exhausted_covers:
  "c < 999 \<Longrightarrow>
   deployment_candidate (TUNA_DEPLOYMENT_NAME_PREFIX tuna_cfg @ ''delta'') c
     \<in> deployment_names_set exhausted_client"
  by (simp add: exhausted_names_set exhausted_names_def tuna_cfg_def)

lemma loop_first_free:
  assumes "rng \<noteq> []" and "deployment_candidate base counter \<notin> names"
  shows "deployment_name_loop base names rng counter = Some (deployment_candidate base counter)"
  using assms by (cases rng) (simp_all add: Let_def)

lemma generate_first_free:
  assumes "deployment_candidate (TUNA_DEPLOYMENT_NAME_PREFIX cfg @ model_name) 0
             \<notin> deployment_names_set client"
  shows "generate_model_deployment_name cfg client random_string model_name =
           deployment_candidate (TUNA_DEPLOYMENT_NAME_PREFIX cfg @ model_name) 0"
proof -
  have "[0..<999] \<noteq> []" by simp
  from loop_first_free [OF this assms] show ?thesis
    by (simp add: generate_model_deployment_name_def)
qed

lemma rindex_append:
  assumes "ch \<notin> set t"
  shows "rindex (s @ ch # t) ch = Some (length s)"
proof -
  from assms have "rindex t ch = None" by (simp add: rindex_None)
  then show ?thesis by (induction s) simp_all
qed

lemma str_contains_append: "str_contains p (p @ s)"
proof (cases "p @ s")
  case Nil
  then show ?thesis by simp
next
  case (Cons c cs)
  have "take (length p) (p @ s) = p" by simp
  with Cons show ?thesis by simp
qed

text \<open>
  Where the two shortenings agree: for a model name that fits into 32 characters
  together with the prefix, every counter candidate is filed under the model name
  itself, and the lookup asks for the model name itself.
\<close>

lemma short_names_consistent:
  assumes "length (prefix @ model_name) \<le> 32" and "counter < 999"
  shows "shortened_key prefix (deployment_candidate (prefix @ model_name) counter)
           = Some model_name"
    and "slice_to model_name (32 - int (length prefix)) = model_name"
proof -
  from assms(1) have
    "take (if counter < 10 then 34 else if counter < 100 then 33 else 32) (prefix @ model_name)
       = prefix @ model_name"
    by (intro take_all) simp
  with assms(2) have cand: "deployment_candidate (prefix @ model_name) counter
      = (prefix @ model_name) @ CHR ''-'' # str_nat counter"
    using candidate_eq [of counter "prefix @ model_name"] by simp
  have "rindex ((prefix @ model_name) @ CHR ''-'' # str_nat counter) CHR ''-''
          = Some (length (prefix @ model_name))"
    by (rule rindex_append) (rule str_nat_no_dash)
  moreover have "str_contains prefix (prefix @ (model_name @ CHR ''-'' # str_nat counter))"
    by (rule str_contains_append)
  ultimately show "shortened_key prefix (deployment_candidate (prefix @ model_name) counter)
           = Some model_name"
    by (simp add: shortened_key_def cand)
  from assms(1) show "slice_to model_name (32 - int (length prefix)) = model_name"
    by (simp add: slice_to_def)
qed

text \<open>
  C1. The lookup of \<open>_get_models_map\<close> cuts the model name at \<open>32 - len(prefix)\<close>
  characters, the index files a deployment under what is left of its name between the
  prefix and the last \<open>-\<close>. For the model name of 28 characters and the prefix
  \<open>tuna-\<close>, the first deployment is named with the whole model name and filed under it,
  the lookup asks for the first 27 characters, and the aggregation reports the deployed
  model as \<open>Ready\<close> without deployments.
\<close>

theorem long_name_key_mismatch:
  "length long_name = 28 \<and>
   generate_model_deployment_name tuna_cfg (long_name_client []) ''AAAA'' long_name
     = ''tuna-aaaaaaaaaaaaaaaaaaaaaaaaaaaa-0'' \<and>
   shortened_key (TUNA_DEPLOYMENT_NAME_PREFIX tuna_cfg) ''tuna-aaaaaaaaaaaaaaaaaaaaaaaaaaaa-0''
     = Some ''aaaaaaaaaaaaaaaaaaaaaaaaaaaa'' \<and>
   slice_to long_name (32 - int (length (TUNA_DEPLOYMENT_NAME_PREFIX tuna_cfg)))
     = ''aaaaaaaaaaaaaaaaaaaaaaaaaaa'' \<and>
   get_models_map tuna_cfg
     (long_name_client [ready_deployment ''tuna-aaaaaaaaaaaaaaaaaaaaaaaaaaaa-0''])
     = Inr [(long_name,
             \<lparr>folder_name = long_name, tuna_model_state = Ready, deployments = None,
              job_name = None\<rparr>)]"
proof -
  have len: "length long_name = 28" by (simp add: long_name_def)
  have cand: "deployment_candidate (TUNA_DEPLOYMENT_NAME_PREFIX tuna_cfg @ long_name) 0
                = ''tuna-aaaaaaaaaaaaaaaaaaaaaaaaaaaa-0''"
    by (simp add: deployment_candidate_def slice_to_def str_nat_digit digit_char_def
          long_name_def tuna_cfg_def)
  have "deployment_names_set (long_name_client []) = {}"
    by (simp add: deployment_names_set_def long_name_client_def snapshot_def)
  then have gen: "generate_model_deployment_name tuna_cfg (long_name_client []) ''AAAA'' long_name
                = ''tuna-aaaaaaaaaaaaaaaaaaaaaaaaaaaa-0''"
    using generate_first_free [of tuna_cfg long_name "long_name_client []" "''AAAA''"] cand
    by simp
  have key: "shortened_key (TUNA_DEPLOYMENT_NAME_PREFIX tuna_cfg)
               ''tuna-aaaaaaaaaaaaaaaaaaaaaaaaaaaa-0'' = Some ''aaaaaaaaaaaaaaaaaaaaaaaaaaaa''"
    by (simp add: shortened_key_def tuna_cfg_def)
  have cut: "slice_to long_name (32 - int (length (TUNA_DEPLOYMENT_NAME_PREFIX tuna_cfg)))
               = ''aaaaaaaaaaaaaaaaaaaaaaaaaaa''"
    by (simp add: slice_to_def long_name_def tuna_cfg_def)
  have agg: "get_models_map tuna_cfg
               (long_name_client [ready_deployment ''tuna-aaaaaaaaaaaaaaaaaaaaaaaaaaaa-0''])
             = Inr [(long_name,
                     \<lparr>folder_name = long_name, tuna_model_state = Ready, deployments = None,
                      job_name = None\<rparr>)]"
    by (simp add: get_models_map_def build_shortened_model_name_deployment_map_def
          long_name_client_def snapshot_def tuna_cfg_def ready_deployment_def
          get_model_names_def model_record_def model_train_completed_def generate_job_name_def
          slice_to_def long_name_def dir_entry_def file_entry_def Let_def)
  from len gen key cut agg show ?thesis by simp
qed

text \<open>
  The fallback name is none of the counter candidates: a candidate has its \<open>-\<close> among its
  last four characters, the fallback name ends with the four random characters, and the
  population of \<open>random.choices\<close> has no \<open>-\<close>.
\<close>

lemma dash_not_alphanumeric: "CHR ''-'' \<notin> set (string_ascii_letters @ string_digits)"
  by (simp add: string_ascii_letters_def string_digits_def)

lemma fallback_is_no_candidate:
  assumes "length random_string = 4"
      and "CHR ''-'' \<notin> set random_string"
      and "counter < 1000"
  shows "x @ random_string \<noteq> deployment_candidate base_name counter"
proof
  assume eq: "x @ random_string = deployment_candidate base_name counter"
  define s where
    "s = take (if counter < 10 then 34 else if counter < 100 then 33 else 32) base_name"
  define ds where "ds = str_nat counter"
  from assms(3) have "deployment_candidate base_name counter = s @ CHR ''-'' # ds"
    by (simp add: candidate_eq s_def ds_def)
  with eq have e: "x @ random_string = s @ CHR ''-'' # ds" by simp
  from assms(3) have "length ds \<le> 3" by (simp add: ds_def length_str_nat_cases)
  moreover from e have "length (x @ random_string) = length (s @ CHR ''-'' # ds)" by simp
  ultimately have le: "length x \<le> length s" using assms(1) by simp
  from e have "drop (length x) (x @ random_string) = drop (length x) (s @ CHR ''-'' # ds)"
    by simp
  with le have "random_string = drop (length x) s @ CHR ''-'' # ds" by simp
  then have "CHR ''-'' \<in> set random_string" by simp
  with assms(2) show False by simp
qed

lemma candidates_only_names:
  "deployment_names_set candidates_only_client =
     set (map (deployment_candidate (TUNA_DEPLOYMENT_NAME_PREFIX tuna_cfg @ ''delta'')) [0..<999])"
  by (simp add: deployment_names_set_def candidates_only_client_def snapshot_def
        ready_deployment_def tuna_cfg_def o_def)

text \<open>
  C2. When all 999 counter candidates are deployment names already, the generated name is
  the prefix and the model name, cut at 32 characters, followed by the four random
  alphanumeric characters. It has at most 36 characters and is none of the 999 counter
  candidates, whatever the random characters are; so it is not a deployment name when
  the deployment names are exactly the counter candidates. The fallback name is not
  compared with the deployment names: a deployment named like the fallback name itself
  is not avoided.
\<close>

theorem fallback_name:
  assumes "\<forall>counter < 999.
             deployment_candidate (TUNA_DEPLOYMENT_NAME_PREFIX cfg @ model_name) counter
               \<in> deployment_names_set client"
      and "length random_string = 4"
      and "set random_string \<subseteq> set (string_ascii_letters @ string_digits)"
  shows "generate_model_deployment_name cfg client random_string model_name =
           take 32 (TUNA_DEPLOYMENT_NAME_PREFIX cfg @ model_name) @ random_string \<and>
         length (generate_model_deployment_name cfg client random_string model_name) \<le> 36 \<and>
         generate_model_deployment_name cfg client random_string model_name
           \<notin> set (map (deployment_candidate (TUNA_DEPLOYMENT_NAME_PREFIX cfg @ model_name))
                    [0..<999]) \<and>
         (deployment_names_set client =
            set (map (deployment_candidate (TUNA_DEPLOYMENT_NAME_PREFIX cfg @ model_name))
                   [0..<999]) \<longrightarrow>
          generate_model_deployment_name cfg client random_string model_name
            \<notin> deployment_names_set client)"
proof -
  define base where "base = TUNA_DEPLOYMENT_NAME_PREFIX cfg @ model_name"
  define cut where "cut = take 32 base"
  define gen where "gen = generate_model_deployment_name cfg client random_string model_name"
  have gen: "gen = cut @ random_string"
    unfolding gen_def cut_def base_def
    using generate_fallback [OF assms(1)] by (simp add: slice_to_def)
  from assms(3) dash_not_alphanumeric have nodash: "CHR ''-'' \<notin> set random_string" by blast
  have fresh: "gen \<notin> set (map (deployment_candidate base) [0..<999])"
  proof
    assume "gen \<in> set (map (deployment_candidate base) [0..<999])"
    then obtain counter where c: "counter < 999" and "gen = deployment_candidate base counter"
      unfolding set_map set_upt by auto
    with gen have "cut @ random_string = deployment_candidate base counter" by simp
    moreover from c have "counter < 1000" by simp
    ultimately show False
      using fallback_is_no_candidate [OF assms(2) nodash, of counter cut base] by simp
  qed
  have len: "length gen \<le> 36"
    unfolding gen cut_def using assms(2) by simp
  from gen fresh len show ?thesis
    unfolding gen_def cut_def base_def by simp
qed

theorem fallback_name_witness:
  "generate_model_deployment_name tuna_cfg candidates_only_client ''x7Qb'' ''delta''
     = ''tuna-deltax7Qb'' \<and>
   length (generate_model_deployment_name tuna_cfg candidates_only_client ''x7Qb'' ''delta'')
     \<le> 36 \<and>
   generate_model_deployment_name tuna_cfg candidates_only_client ''x7Qb'' ''delta''
     \<notin> deployment_names_set candidates_only_client"
proof -
  have cover: "\<forall>counter < 999.
      deployment_candidate (TUNA_DEPLOYMENT_NAME_PREFIX tuna_cfg @ ''delta'') counter
        \<in> deployment_names_set candidates_only_client"
    unfolding candidates_only_names by simp
  have len: "length ''x7Qb'' = 4" by simp
  have alnum: "set ''x7Qb'' \<subseteq> set (string_ascii_letters @ string_digits)"
    by (simp add: string_ascii_letters_def string_digits_def)
  note fb = fallback_name [OF cover len alnum]
  from fb have "generate_model_deployment_name tuna_cfg candidates_only_client ''x7Qb'' ''delta''
      = take 32 (TUNA_DEPLOYMENT_NAME_PREFIX tuna_cfg @ ''delta'') @ ''x7Qb''"
    by (rule conjunct1)
  then have name: "generate_model_deployment_name tuna_cfg candidates_only_client ''x7Qb'' ''delta''
      = ''tuna-deltax7Qb''"
    by (simp add: tuna_cfg_def)
  from fb have bound:
    "length (generate_model_deployment_name tuna_cfg candidates_only_client ''x7Qb'' ''delta'')
       \<le> 36"
    by blast
  from fb candidates_only_names have outside:
    "generate_model_deployment_name tuna_cfg candidates_only_client ''x7Qb'' ''delta''
       \<notin> deployment_names_set candidates_only_client"
    by blast
  from name bound outside show ?thesis by (intro conjI)
qed

text \<open>
  The fallback name can be a deployment name: in the exhaustion inventory for \<open>delta\<close>
  every counter candidate is taken, and with the random characters \<open>AAAA\<close> the generated
  name is the deployed \<open>tuna-deltaAAAA\<close>.
\<close>

theorem fallback_name_collides:
  "length ''AAAA'' = 4 \<and>
   set ''AAAA'' \<subseteq> set (string_ascii_letters @ string_digits) \<and>
   set (map (deployment_candidate ''tuna-delta'') [0..<999])
     \<subseteq> deployment_names_set exhausted_client \<and>
   generate_model_deployment_name tuna_cfg exhausted_client ''AAAA'' ''delta''
     \<in> deployment_names_set exhausted_client"
proof -
  have alnum: "set ''AAAA'' \<subseteq> set (string_ascii_letters @ string_digits)"
    by (simp add: string_ascii_letters_def string_digits_def)
  have cover: "set (map (deployment_candidate ''tuna-delta'') [0..<999])
          \<subseteq> deployment_names_set exhausted_client"
    by (auto simp: exhausted_names_set exhausted_names_def)
  have "generate_model_deployment_name tuna_cfg exhausted_client ''AAAA'' ''delta''
          = ''tuna-deltaAAAA''"
    using generate_fallback [of tuna_cfg "''delta''" exhausted_client "''AAAA''"] exhausted_covers
    by (simp add: tuna_cfg_def slice_to_def)
  then have "generate_model_deployment_name tuna_cfg exhausted_client ''AAAA'' ''delta''
          \<in> deployment_names_set exhausted_client"
    by (simp add: exhausted_names_set exhausted_names_def)
  with alnum cover show ?thesis by simp
qed

text \<open>
  C6. The generated deployment name has at most 36 characters, for every prefix, model
  name and deployment inventory, the random string having four characters. The base name
  is cut at 34 characters for a counter of one digit, at 33 for two digits and at 32 for
  three digits, so that every counter candidate has at most 36 characters.
\<close>

theorem generated_name_within_limit:
  assumes "length random_string = 4"
  shows "length (generate_model_deployment_name cfg client random_string model_name) \<le> 36 \<and>
         (\<forall>counter < 999.
            deployment_candidate (TUNA_DEPLOYMENT_NAME_PREFIX cfg @ model_name) counter =
              take (if counter < 10 then 34 else if counter < 100 then 33 else 32)
                (TUNA_DEPLOYMENT_NAME_PREFIX cfg @ model_name) @ ''-'' @ str_nat counter \<and>
            length (deployment_candidate (TUNA_DEPLOYMENT_NAME_PREFIX cfg @ model_name) counter)
              \<le> 36)"
proof
  let ?base = "TUNA_DEPLOYMENT_NAME_PREFIX cfg @ model_name"
  show "length (generate_model_deployment_name cfg client random_string model_name) \<le> 36"
  proof (cases "deployment_name_loop ?base (deployment_names_set client) [0..<999] 0")
    case None
    with assms show ?thesis
      by (simp add: generate_model_deployment_name_def slice_to_def)
  next
    case (Some n)
    from loop_Some [OF Some] obtain j where "j < 999" "n = deployment_candidate ?base j"
      by auto
    with Some show ?thesis
      by (simp add: generate_model_deployment_name_def length_candidate)
  qed
  show "\<forall>counter < 999.
          deployment_candidate ?base counter =
            take (if counter < 10 then 34 else if counter < 100 then 33 else 32) ?base
              @ ''-'' @ str_nat counter \<and>
          length (deployment_candidate ?base counter) \<le> 36"
    using candidate_eq [of _ ?base] length_candidate [of _ ?base] by simp
qed

theorem generated_name_within_limit_witness:
  "length (generate_model_deployment_name tuna_cfg exhausted_client ''AAAA'' ''delta'') \<le> 36 \<and>
   deployment_candidate ''tuna-delta'' 7 = ''tuna-delta-7'' \<and>
   deployment_candidate ''tuna-a-model-name-of-thirty-five-chars'' 123
     = ''tuna-a-model-name-of-thirty-five-123''"
proof -
  have len: "length ''AAAA'' = 4" by simp
  have seven: "str_nat 7 = ''7''" by (simp add: str_nat_digit digit_char_def)
  have big: "str_nat 123 = ''123''"
    by (simp add: str_nat_step str_nat_digit digit_char_def)
  from generated_name_within_limit [OF len, of tuna_cfg exhausted_client "''delta''"]
  have "length (generate_model_deployment_name tuna_cfg exhausted_client ''AAAA'' ''delta'') \<le> 36"
    by simp
  moreover
  from generated_name_within_limit [OF len, of tuna_cfg exhausted_client "''delta''"]
  have "deployment_candidate ''tuna-delta'' 7 = ''tuna-delta-7''"
    by (simp add: tuna_cfg_def seven)
  moreover
  from generated_name_within_limit
         [OF len, of tuna_cfg exhausted_client "''a-model-name-of-thirty-five-chars''"]
  have "deployment_candidate ''tuna-a-model-name-of-thirty-five-chars'' 123
          = ''tuna-a-model-name-of-thirty-five-123''"
    by (simp add: tuna_cfg_def big)
  ultimately show ?thesis by simp
qed

text \<open>
  C8. When one of the 999 counter candidates is not a deployment name, the generated name
  does not depend on the random string: two calls on the same inventory and model name
  return the same name.
\<close>

theorem generate_deterministic:
  assumes "counter < 999"
      and "deployment_candidate (TUNA_DEPLOYMENT_NAME_PREFIX cfg @ model_name) counter
             \<notin> deployment_names_set client"
  shows "generate_model_deployment_name cfg client r1 model_name =
         generate_model_deployment_name cfg client r2 model_name"
proof -
  from generate_candidate [OF assms] obtain j where
    "deployment_name_loop (TUNA_DEPLOYMENT_NAME_PREFIX cfg @ model_name)
           (deployment_names_set client) [0..<999] 0 =
           Some (deployment_candidate (TUNA_DEPLOYMENT_NAME_PREFIX cfg @ model_name) j)"
    by blast
  then show ?thesis by (simp add: generate_model_deployment_name_def)
qed

theorem generate_deterministic_witness:
  "generate_model_deployment_name tuna_cfg demo_client ''AAAA'' ''alpha'' =
   generate_model_deployment_name tuna_cfg demo_client ''zzzz'' ''alpha''"
proof -
  have two: "(2::nat) < 999" by simp
  have free: "deployment_candidate (TUNA_DEPLOYMENT_NAME_PREFIX tuna_cfg @ ''alpha'') 2
                \<notin> deployment_names_set demo_client"
    by (simp add: deployment_candidate_def slice_to_def str_nat_digit digit_char_def
          deployment_names_set_def demo_client_def snapshot_def ready_deployment_def tuna_cfg_def)
  show ?thesis by (rule generate_deterministic [OF two free])
qed

section \<open>Properties of the aggregation\<close>

text \<open>
  C3. A model whose output directory has at most one entry (training not completed) and
  whose job name is not in the running set is recorded as \<open>TrainFailed\<close>, whatever the
  deployment inventory holds; the job name is attached exactly when it is in the failed
  set, and no deployments are attached. The aggregation returns whenever the deployment
  index can be built.
\<close>

theorem train_failed_state:
  assumes "storage_check_exists client (DEFAULT_TUNA_FOLDER cfg)"
      and "storage_check_exists client (DEFAULT_TUNA_MODEL_PATH cfg)"
      and "index_builds cfg client"
      and "model_name \<in> set (get_model_names cfg client)"
      and "length (storage_get_dir client (DEFAULT_TUNA_MODEL_PATH cfg @ ''/'' @ model_name)) \<le> 1"
      and "generate_job_name cfg model_name \<notin> running_job_set client"
  shows "\<not> model_train_completed cfg client model_name \<and>
         (\<exists>m. get_models_map cfg client = Inr m \<and>
            map_of m model_name =
              Some \<lparr>folder_name = model_name, tuna_model_state = TrainFailed, deployments = None,
                    job_name = (if generate_job_name cfg model_name \<in> failed_job_set client
                                then Some (generate_job_name cfg model_name) else None)\<rparr>)"
proof -
  from assms(5) have flag: "\<not> model_train_completed cfg client model_name"
    by (simp add: model_train_completed_def)
  from get_models_map_lookup [OF assms(1-4)] obtain idx m where
    m: "get_models_map cfg client = Inr m"
       "map_of m model_name =
          Some (model_record cfg client (running_job_set client) (failed_job_set client) idx
                  model_name)"
    by blast
  have "model_record cfg client (running_job_set client) (failed_job_set client) idx model_name =
          \<lparr>folder_name = model_name, tuna_model_state = TrainFailed, deployments = None,
           job_name = (if generate_job_name cfg model_name \<in> failed_job_set client
                       then Some (generate_job_name cfg model_name) else None)\<rparr>"
    using flag assms(6) by (simp add: model_record_def Let_def)
  with m flag show ?thesis by simp
qed

theorem train_failed_state_witness:
  "\<exists>m. get_models_map tuna_cfg demo_client = Inr m \<and>
      map_of m ''gamma'' =
        Some \<lparr>folder_name = ''gamma'', tuna_model_state = TrainFailed, deployments = None,
              job_name = Some ''train-job-gamma''\<rparr>"
proof -
  have "''gamma'' \<in> set (get_model_names tuna_cfg demo_client)"
    by (simp add: demo_model_names)
  moreover have "length (storage_get_dir demo_client
                   (DEFAULT_TUNA_MODEL_PATH tuna_cfg @ ''/'' @ ''gamma'')) \<le> 1"
    by (simp add: demo_client_def snapshot_def tuna_cfg_def)
  moreover have "generate_job_name tuna_cfg ''gamma'' \<notin> running_job_set demo_client"
    by (simp add: demo_running generate_job_name_def tuna_cfg_def)
  ultimately show ?thesis
    using train_failed_state [OF demo_exists demo_index_builds, of "''gamma''"]
    by (simp add: demo_failed generate_job_name_def tuna_cfg_def)
qed

text \<open>
  C4. A model whose job name belongs to a job of the inventory in state Running or
  Starting is recorded as \<open>Training\<close>, with the job name, the job prefix followed by the
  model name, attached; neither the deployment inventory nor the contents of the model's
  directory matter.
\<close>

theorem training_state:
  assumes "storage_check_exists client (DEFAULT_TUNA_FOLDER cfg)"
      and "storage_check_exists client (DEFAULT_TUNA_MODEL_PATH cfg)"
      and "index_builds cfg client"
      and "model_name \<in> set (get_model_names cfg client)"
      and "job \<in> set (job_list_all client)"
      and "job_metadata_name job = generate_job_name cfg model_name"
      and "job_status_state job = JobRunning \<or> job_status_state job = JobStarting"
  shows "\<exists>m. get_models_map cfg client = Inr m \<and>
           map_of m model_name =
             Some \<lparr>folder_name = model_name, tuna_model_state = Training, deployments = None,
                   job_name = Some (TUNA_TRAIN_JOB_NAME_PREFIX cfg @ model_name)\<rparr>"
proof -
  from assms(5-7) have running: "generate_job_name cfg model_name \<in> running_job_set client"
    unfolding running_job_set_eq by force
  from get_models_map_lookup [OF assms(1-4)] obtain idx m where
    m: "get_models_map cfg client = Inr m"
       "map_of m model_name =
          Some (model_record cfg client (running_job_set client) (failed_job_set client) idx
                  model_name)"
    by blast
  have "model_record cfg client (running_job_set client) (failed_job_set client) idx model_name =
          \<lparr>folder_name = model_name, tuna_model_state = Training, deployments = None,
           job_name = Some (TUNA_TRAIN_JOB_NAME_PREFIX cfg @ model_name)\<rparr>"
    using running by (simp add: model_record_def Let_def generate_job_name_def)
  with m show ?thesis by simp
qed

theorem training_state_witness:
  "\<exists>m. get_models_map tuna_cfg demo_client = Inr m \<and>
      map_of m ''epsilon'' =
        Some \<lparr>folder_name = ''epsilon'', tuna_model_state = Training, deployments = None,
              job_name = Some ''train-job-epsilon''\<rparr>"
proof -
  let ?job = "\<lparr>job_metadata_name = ''train-job-epsilon'', job_status_state = JobRunning\<rparr>"
  have "''epsilon'' \<in> set (get_model_names tuna_cfg demo_client)"
    by (simp add: demo_model_names)
  moreover have "?job \<in> set (job_list_all demo_client)"
    by (simp add: demo_client_def snapshot_def)
  moreover have "job_metadata_name ?job = generate_job_name tuna_cfg ''epsilon''"
    by (simp add: generate_job_name_def tuna_cfg_def)
  moreover have "job_status_state ?job = JobRunning \<or> job_status_state ?job = JobStarting"
    by simp
  ultimately show ?thesis
    using training_state [OF demo_exists demo_index_builds, of "''epsilon''" ?job]
    by (simp add: tuna_cfg_def)
qed

text \<open>
  C5. When the deployment index is built, every key under which at least one deployment
  of the inventory is filed holds the state \<open>Running\<close> if one of these deployments is
  Ready, Starting or Updating and \<open>Stopped\<close> otherwise, together with the strings
  \<open>"<deployment name> (<status>)"\<close> of these deployments in inventory order. The index is
  built whenever every deployment name that contains the prefix has a \<open>-\<close>.
\<close>

theorem deployment_index_aggregate:
  assumes "index_builds cfg client"
  shows "\<exists>idx. build_shortened_model_name_deployment_map cfg client = Inr idx \<and>
           (\<forall>k. matching_deployments cfg client k \<noteq> [] \<longrightarrow>
              map_of idx k =
                Some (if list_ex deployment_active (matching_deployments cfg client k)
                      then Running else Stopped,
                      map deployment_entry (matching_deployments cfg client k)))"
proof -
  from index_builds_returns [OF assms] obtain idx where
    idx: "build_shortened_model_name_deployment_map cfg client = Inr idx" by blast
  have "map_of idx k =
          Some (if list_ex deployment_active (matching_deployments cfg client k)
                then Running else Stopped,
                map deployment_entry (matching_deployments cfg client k))"
    if "matching_deployments cfg client k \<noteq> []" for k
    using index_lookup [OF idx, of k] that by (simp add: merge_info_def)
  with idx show ?thesis by blast
qed

theorem deployment_index_aggregate_witness:
  "\<exists>idx. build_shortened_model_name_deployment_map tuna_cfg demo_client = Inr idx \<and>
      map_of idx ''alpha'' =
        Some (Running, [''tuna-alpha-0 (Stopped)'', ''tuna-alpha-1 (Ready)'']) \<and>
      map_of idx ''zeta'' = Some (Stopped, [''tuna-zeta-0 (Not Ready)''])"
proof -
  have alpha: "matching_deployments tuna_cfg demo_client ''alpha'' =
      [\<lparr>deployment_metadata_name = ''tuna-alpha-0'',
        deployment_status_state = DeploymentOther ''Stopped''\<rparr>,
       ready_deployment ''tuna-alpha-1'']"
    by (simp add: matching_deployments_def shortened_key_def demo_client_def snapshot_def
          tuna_cfg_def ready_deployment_def)
  have zeta: "matching_deployments tuna_cfg demo_client ''zeta'' =
      [\<lparr>deployment_metadata_name = ''tuna-zeta-0'',
        deployment_status_state = DeploymentOther ''Not Ready''\<rparr>]"
    by (simp add: matching_deployments_def shortened_key_def demo_client_def snapshot_def
          tuna_cfg_def ready_deployment_def)
  from deployment_index_aggregate [OF demo_index_builds] obtain idx where
    idx: "build_shortened_model_name_deployment_map tuna_cfg demo_client = Inr idx"
    and all: "\<And>k. matching_deployments tuna_cfg demo_client k \<noteq> [] \<Longrightarrow>
              map_of idx k =
                Some (if list_ex deployment_active (matching_deployments tuna_cfg demo_client k)
                      then Running else Stopped,
                      map deployment_entry (matching_deployments tuna_cfg demo_client k))"
    by blast
  from all [of "''alpha''"] have "map_of idx ''alpha'' =
        Some (Running, [''tuna-alpha-0 (Stopped)'', ''tuna-alpha-1 (Ready)''])"
    by (simp add: alpha deployment_active_def deployment_entry_def ready_deployment_def)
  moreover from all [of "''zeta''"] have
    "map_of idx ''zeta'' = Some (Stopped, [''tuna-zeta-0 (Not Ready)''])"
    by (simp add: zeta deployment_active_def deployment_entry_def)
  ultimately show ?thesis using idx by blast
qed

text \<open>
  C7. When the tuna root folder or the models root path does not exist in storage, the
  aggregation returns the empty mapping and raises nothing, whatever the job and the
  deployment inventories hold.
\<close>

theorem missing_root_gives_empty_map:
  assumes "\<not> storage_check_exists client (DEFAULT_TUNA_FOLDER cfg) \<or>
           \<not> storage_check_exists client (DEFAULT_TUNA_MODEL_PATH cfg)"
  shows "get_models_map cfg client = Inr []"
  using assms by (auto simp: get_models_map_def)

theorem missing_root_gives_empty_map_witness:
  "get_models_map tuna_cfg
     (snapshot [(''/lepton-tuna'', [])]
        [\<lparr>job_metadata_name = ''train-job-alpha'', job_status_state = JobRunning\<rparr>]
        [ready_deployment ''tuna''])
   = Inr []"
proof -
  have "\<not> storage_check_exists
            (snapshot [(''/lepton-tuna'', [])]
               [\<lparr>job_metadata_name = ''train-job-alpha'', job_status_state = JobRunning\<rparr>]
               [ready_deployment ''tuna''])
            (DEFAULT_TUNA_MODEL_PATH tuna_cfg)"
    by (simp add: snapshot_def tuna_cfg_def)
  then show ?thesis by (intro missing_root_gives_empty_map) simp
qed

text \<open>
  C9. Every record of a mapping returned by the aggregation has one of the states
  \<open>Training\<close>, \<open>Ready\<close>, \<open>Running\<close>, \<open>TrainFailed\<close>, \<open>Stopped\<close>; the state \<open>Unknown\<close> is
  never assigned.
\<close>

theorem no_unknown_state:
  assumes "get_models_map cfg client = Inr m"
      and "(k, r) \<in> set m"
  shows "tuna_model_state r \<in> {Training, Ready, Running, TrainFailed, Stopped} \<and>
         tuna_model_state r \<noteq> Unknown"
proof -
  from assms have ex: "storage_check_exists client (DEFAULT_TUNA_FOLDER cfg)"
      "storage_check_exists client (DEFAULT_TUNA_MODEL_PATH cfg)"
    by (auto simp: get_models_map_def split: if_splits)
  obtain idx where idx: "build_shortened_model_name_deployment_map cfg client = Inr idx"
    using assms(1) ex
    by (cases "build_shortened_model_name_deployment_map cfg client")
       (auto simp: get_models_map_def split_beta)
  let ?body = "model_record cfg client (running_job_set client) (failed_job_set client) idx"
  from get_models_map_eq [OF ex idx] assms have
    "(k, r) \<in> set (models_loop ?body (get_model_names cfg client) [])" by simp
  from set_models_loop [OF this] have r: "r = ?body k" by simp
  have "tuna_model_state (?body k) \<in> {Training, Ready, Running, TrainFailed, Stopped}"
  proof (cases "map_of idx (slice_to k (32 - int (length (TUNA_DEPLOYMENT_NAME_PREFIX cfg))))")
    case None
    then show ?thesis by (simp add: model_record_def Let_def)
  next
    case (Some info)
    from index_state [OF idx Some] have "fst info = Running \<or> fst info = Stopped" .
    with Some show ?thesis by (auto simp: model_record_def Let_def)
  qed
  with r show ?thesis by auto
qed

theorem no_unknown_state_witness:
  "tuna_model_state
     \<lparr>folder_name = ''alpha'', tuna_model_state = Running,
      deployments = Some [''tuna-alpha-0 (Stopped)'', ''tuna-alpha-1 (Ready)''],
      job_name = None\<rparr>
     \<in> {Training, Ready, Running, TrainFailed, Stopped} \<and>
   (\<exists>m. get_models_map tuna_cfg demo_client = Inr m \<and> length m = 5)"
proof -
  from no_unknown_state [OF demo_models_map, of "''alpha''"
      "\<lparr>folder_name = ''alpha'', tuna_model_state = Running,
        deployments = Some [''tuna-alpha-0 (Stopped)'', ''tuna-alpha-1 (Ready)''],
        job_name = None\<rparr>"]
  show ?thesis by (simp add: demo_models_map)
qed

text \<open>
  C10. A model directory that exists and has no entry at all is neither skipped nor
  marked \<open>Unknown\<close>: when its job name is neither in the running nor in the failed set,
  its record is \<open>TrainFailed\<close> without job name, since the completion check
  \<open>len(dir_infos) > 1\<close> is false.
\<close>

theorem empty_directory_train_failed:
  assumes "storage_check_exists client (DEFAULT_TUNA_FOLDER cfg)"
      and "storage_check_exists client (DEFAULT_TUNA_MODEL_PATH cfg)"
      and "index_builds cfg client"
      and "model_name \<in> set (get_model_names cfg client)"
      and "storage_get_dir client (DEFAULT_TUNA_MODEL_PATH cfg @ ''/'' @ model_name) = []"
      and "generate_job_name cfg model_name \<notin> running_job_set client"
      and "generate_job_name cfg model_name \<notin> failed_job_set client"
  shows "\<not> model_train_completed cfg client model_name \<and>
         (\<exists>m. get_models_map cfg client = Inr m \<and>
            map_of m model_name =
              Some \<lparr>folder_name = model_name, tuna_model_state = TrainFailed, deployments = None,
                    job_name = None\<rparr>)"
proof -
  from assms(5) have flag: "\<not> model_train_completed cfg client model_name"
    by (simp add: model_train_completed_def)
  from get_models_map_lookup [OF assms(1-4)] obtain idx m where
    m: "get_models_map cfg client = Inr m"
       "map_of m model_name =
          Some (model_record cfg client (running_job_set client) (failed_job_set client) idx
                  model_name)"
    by blast
  have "model_record cfg client (running_job_set client) (failed_job_set client) idx model_name =
          \<lparr>folder_name = model_name, tuna_model_state = TrainFailed, deployments = None,
           job_name = None\<rparr>"
    using flag assms(6,7) by (simp add: model_record_def Let_def)
  with m flag show ?thesis by simp
qed

theorem empty_directory_train_failed_witness:
  "\<exists>m. get_models_map tuna_cfg demo_client = Inr m \<and>
      map_of m ''delta'' =
        Some \<lparr>folder_name = ''delta'', tuna_model_state = TrainFailed, deployments = None,
              job_name = None\<rparr>"
proof -
  have "''delta'' \<in> set (get_model_names tuna_cfg demo_client)"
    by (simp add: demo_model_names)
  moreover have "storage_get_dir demo_client
                   (DEFAULT_TUNA_MODEL_PATH tuna_cfg @ ''/'' @ ''delta'') = []"
    by (simp add: demo_client_def snapshot_def tuna_cfg_def)
  moreover have "generate_job_name tuna_cfg ''delta'' \<notin> running_job_set demo_client"
    by (simp add: demo_running generate_job_name_def tuna_cfg_def)
  moreover have "generate_job_name tuna_cfg ''delta'' \<notin> failed_job_set demo_client"
    by (simp add: demo_failed generate_job_name_def tuna_cfg_def)
  ultimately show ?thesis
    using empty_directory_train_failed [OF demo_exists demo_index_builds, of "''delta''"]
    by simp
qed

end
